theory Spec2Isabelle
  imports Main
begin

section \<open>JavaScript values and conversions\<close>

text \<open>
  The client is TypeScript. Strings are modelled as \<open>string\<close> (a list of 8-bit code units,
  enough for every character the modelled functions inspect), \<open>undefined\<close> as \<open>None\<close>.
  A value decoded from JSON is a \<open>'n json\<close>, where \<open>'n\<close> is the type of JavaScript numbers
  (IEEE doubles); what the number type does is supplied by the runtime record below.
\<close>

datatype 'n json =
    JNull
  | JBool bool
  | JNum 'n
  | JStr string
  | JArr "'n json list"
  | JObj "(string \<times> 'n json) list"

text \<open>Thrown values. The client itself only ever throws \<open>new Error(msg)\<close>; the others
  are what \<open>JSON.parse\<close>, the platform's secure storage and the HTTP transport throw.\<close>

datatype js_error =
    Error string
  | SyntaxError
  | StorageFailure
  | TransportFailure string

subsection \<open>Decimal rendering of integers\<close>

definition digit_char :: "nat \<Rightarrow> char" where
  "digit_char d = ''0123456789'' ! (d mod 10)"

fun show_nat :: "nat \<Rightarrow> string" where
  "show_nat n = (if n < 10 then [digit_char n] else show_nat (n div 10) @ [digit_char (n mod 10)])"

declare show_nat.simps [simp del]

text \<open>\<open>String(n)\<close> for an integer-valued number \<open>n\<close>: JavaScript prints the decimal digits,
  with a leading minus sign, for every integer of magnitude below \<open>10^21\<close>; identifiers
  are such integers.\<close>

definition String_int :: "int \<Rightarrow> string" where
  "String_int j = (if j < 0 then CHR ''-'' # show_nat (nat (- j)) else show_nat (nat j))"

text \<open>\<open>Number.isSafeInteger\<close>: the integers a JavaScript number represents exactly.\<close>

definition isSafeInteger :: "int \<Rightarrow> bool" where
  "isSafeInteger j \<longleftrightarrow> - (2 ^ 53) < j \<and> j < 2 ^ 53"

subsection \<open>\<open>encodeURIComponent\<close>\<close>

text \<open>ECMAScript's \<open>encodeURIComponent\<close> on code units below 256: the unreserved characters
  (letters, digits and \<open>- _ . ! ~ * ' ( )\<close>) stay, every other character is replaced by the
  percent-escapes of its UTF-8 bytes.\<close>

definition uri_unreserved :: "char \<Rightarrow> bool" where
  "uri_unreserved c \<longleftrightarrow>
     c \<in> set (''ABCDEFGHIJKLMNOPQRSTUVWXYZabcdefghijklmnopqrstuvwxyz0123456789-_.!~*()'' @ [CHR 0x27])"

definition hex_char :: "nat \<Rightarrow> char" where
  "hex_char d = ''0123456789ABCDEF'' ! (d mod 16)"

definition pct_byte :: "nat \<Rightarrow> string" where
  "pct_byte b = [CHR ''%'', hex_char (b div 16), hex_char (b mod 16)]"

definition encode_char :: "char \<Rightarrow> string" where
  "encode_char c =
     (if uri_unreserved c then [c]
      else let n = (of_char c :: nat) in
        if n < 128 then pct_byte n
        else pct_byte (192 + n div 64) @ pct_byte (128 + n mod 64))"

definition encodeURIComponent :: "string \<Rightarrow> string" where
  "encodeURIComponent s = concat (map encode_char s)"

section \<open>Endpoint paths: \<open>withJobId\<close> (mobile/lib/api.ts)\<close>

text \<open>
  \<^verbatim>\<open>
  function withJobId(path: string, jobId?: number | null) {
    if (jobId === null || jobId === undefined) return path;
    const join = path.includes("?") ? "&" : "?";
    return `${path}${join}job_id=${encodeURIComponent(String(jobId))}`;
  }
  \<close>
  \<open>None\<close> stands for both \<open>null\<close> and \<open>undefined\<close>, which the function treats alike.
\<close>

definition withJobId :: "string \<Rightarrow> int option \<Rightarrow> string" where
  "withJobId path jobId =
     (case jobId of
        None \<Rightarrow> path
      | Some j \<Rightarrow>
          (let join = (if CHR ''?'' \<in> set path then ''&'' else ''?'')
           in path @ join @ ''job_id='' @ encodeURIComponent (String_int j)))"

section \<open>Configuration (mobile/lib/config.ts)\<close>

text \<open>
  \<^verbatim>\<open>
  type Extra = { apiBaseUrl?: string };
  function readExtra(): Extra {
    const c: any = Constants as any;
    return (
      (Constants.expoConfig?.extra as Extra | undefined) ??
      (c.manifest?.extra as Extra | undefined) ??
      (c.manifest2?.extra as Extra | undefined) ??
      {}
    );
  }
  const extra = readExtra();
  export const API_BASE_URL =
    extra.apiBaseUrl ||
    process.env.EXPO_PUBLIC_API_BASE_URL ||
    "https://jobflow-backend-bhvw.onrender.com";
  \<close>
  \<open>Constants\<close> is the build-time application manifest; each of its three places for the
  \<open>extra\<close> block may be missing.
\<close>

record Extra =
  apiBaseUrl :: "string option"

record expo_constants =
  expoConfig_extra :: "Extra option"
  manifest_extra :: "Extra option"
  manifest2_extra :: "Extra option"

text \<open>\<open>a ?? b\<close>: the left operand unless it is \<open>undefined\<close> or \<open>null\<close>.\<close>

definition nullish :: "'a option \<Rightarrow> 'a option \<Rightarrow> 'a option" where
  "nullish a b = (case a of Some x \<Rightarrow> Some x | None \<Rightarrow> b)"

definition readExtra :: "expo_constants \<Rightarrow> Extra" where
  "readExtra c =
     (case nullish (expoConfig_extra c) (nullish (manifest_extra c) (manifest2_extra c)) of
        Some e \<Rightarrow> e
      | None \<Rightarrow> \<lparr>apiBaseUrl = None\<rparr>)"

text \<open>\<open>a || b\<close> where \<open>a\<close> is a string or \<open>undefined\<close> and \<open>b\<close> a string: \<open>a\<close> when it
  is truthy (a non-empty string), else \<open>b\<close>.\<close>

definition str_truthy :: "string option \<Rightarrow> bool" where
  "str_truthy v = (case v of None \<Rightarrow> False | Some s \<Rightarrow> s \<noteq> [])"

definition or_else :: "string option \<Rightarrow> string \<Rightarrow> string" where
  "or_else a b = (case a of None \<Rightarrow> b | Some s \<Rightarrow> if s = [] then b else s)"

definition FALLBACK_URL :: string where
  "FALLBACK_URL = ''https://jobflow-backend-bhvw.onrender.com''"

definition API_BASE_URL :: "expo_constants \<Rightarrow> string option \<Rightarrow> string" where
  "API_BASE_URL c env_EXPO_PUBLIC_API_BASE_URL =
     (let extra = readExtra c in
      or_else (apiBaseUrl extra) (or_else env_EXPO_PUBLIC_API_BASE_URL FALLBACK_URL))"

definition getApiBaseUrl :: "expo_constants \<Rightarrow> string option \<Rightarrow> string" where
  "getApiBaseUrl c env_var = API_BASE_URL c env_var"

section \<open>Effects: secure storage, the network, and an event log\<close>

text \<open>
  The asynchronous functions of the client are modelled as state transformers over a
  \<open>world\<close>: the contents of the platform's secure key/value storage, a plan of storage
  faults (each storage call consumes one entry of the plan and throws when the entry is
  \<open>True\<close>; an exhausted plan means no more faults), and the log of the calls made to the
  platform, oldest first.
\<close>

datatype HttpMethod = GET | POST | PUT | DELETE

record http_request =
  req_url :: string
  req_method :: HttpMethod
  req_headers :: "(string \<times> string) list"
  req_body :: "string option"

text \<open>A response as \<open>request\<close> uses it: the status and what awaiting \<open>res.text()\<close> gives.\<close>

record response =
  res_status :: nat
  res_text :: "js_error + string"

definition res_ok :: "response \<Rightarrow> bool" where
  "res_ok res \<longleftrightarrow> 200 \<le> res_status res \<and> res_status res \<le> 299"

datatype event =
    StoreGet string
  | StoreSet string string
  | StoreDelete string
  | Fetch http_request
  | ReadText
  | JsonParse string

record world =
  items :: "string \<Rightarrow> string option"
  faults :: "bool list"
  log :: "event list"

type_synonym 'a io = "world \<Rightarrow> (js_error + 'a) \<times> world"

definition ret :: "'a \<Rightarrow> 'a io" where
  "ret x = (\<lambda>w. (Inr x, w))"

definition throw :: "js_error \<Rightarrow> 'a io" where
  "throw e = (\<lambda>w. (Inl e, w))"

text \<open>\<open>const x = await m; f(x)\<close>: a rejection of \<open>m\<close> skips the rest.\<close>

definition bind :: "'a io \<Rightarrow> ('a \<Rightarrow> 'b io) \<Rightarrow> 'b io" where
  "bind m f = (\<lambda>w. case m w of (Inl e, w') \<Rightarrow> (Inl e, w') | (Inr x, w') \<Rightarrow> f x w')"

text \<open>\<open>try { m } catch { h }\<close>.\<close>

definition try_catch :: "'a io \<Rightarrow> (js_error \<Rightarrow> 'a io) \<Rightarrow> 'a io" where
  "try_catch m h = (\<lambda>w. case m w of (Inl e, w') \<Rightarrow> h e w' | (Inr x, w') \<Rightarrow> (Inr x, w'))"

definition emit :: "event \<Rightarrow> world \<Rightarrow> world" where
  "emit ev w = w\<lparr>log := log w @ [ev]\<rparr>"

definition next_fault :: "world \<Rightarrow> bool \<times> world" where
  "next_fault w = (case faults w of [] \<Rightarrow> (False, w) | f # fs \<Rightarrow> (f, w\<lparr>faults := fs\<rparr>))"

subsection \<open>The platform's secure storage (expo-secure-store)\<close>

definition getItemAsync :: "string \<Rightarrow> (string option) io" where
  "getItemAsync k = (\<lambda>w.
     let (f, w1) = next_fault (emit (StoreGet k) w)
     in if f then (Inl StorageFailure, w1) else (Inr (items w1 k), w1))"

definition setItemAsync :: "string \<Rightarrow> string \<Rightarrow> unit io" where
  "setItemAsync k v = (\<lambda>w.
     let (f, w1) = next_fault (emit (StoreSet k v) w)
     in if f then (Inl StorageFailure, w1) else (Inr (), w1\<lparr>items := (items w1)(k \<mapsto> v)\<rparr>))"

definition deleteItemAsync :: "string \<Rightarrow> unit io" where
  "deleteItemAsync k = (\<lambda>w.
     let (f, w1) = next_fault (emit (StoreDelete k) w)
     in if f then (Inl StorageFailure, w1) else (Inr (), w1\<lparr>items := (items w1)(k := None)\<rparr>))"

section \<open>Token store (mobile/lib/token.ts, mobile/lib/auth.ts)\<close>

definition TOKEN_KEY :: string where
  "TOKEN_KEY = ''jobflow_access_token''"

definition USER_ID_KEY :: string where
  "USER_ID_KEY = ''jobflow_user_id''"

text \<open>
  \<^verbatim>\<open>
  export async function getToken(): Promise<string | null> {
    try {
      const tok = await SecureStore.getItemAsync(TOKEN_KEY)
      return tok ?? null
    } catch {
      return null
    }
  }
  \<close>
\<close>

definition getToken :: "(string option) io" where
  "getToken = try_catch (bind (getItemAsync TOKEN_KEY) (\<lambda>tok. ret (nullish tok None)))
                        (\<lambda>e. ret None)"

text \<open>
  \<^verbatim>\<open>
  export async function setToken(token: string): Promise<void> {
    try {
      if (!token) return
      await SecureStore.setItemAsync(TOKEN_KEY, token)
    } catch {
      // ignore
    }
  }
  \<close>
\<close>

definition setToken :: "string \<Rightarrow> unit io" where
  "setToken token = try_catch (if token = [] then ret () else setItemAsync TOKEN_KEY token)
                              (\<lambda>e. ret ())"

text \<open>
  \<^verbatim>\<open>
  export async function clearToken(): Promise<void> {
    try {
      await SecureStore.deleteItemAsync(TOKEN_KEY)
    } catch {
      // ignore
    }
  }
  \<close>
\<close>

definition clearToken :: "unit io" where
  "clearToken = try_catch (deleteItemAsync TOKEN_KEY) (\<lambda>e. ret ())"

text \<open>
  \<^verbatim>\<open>
  export async function setAuth(token: string, userId: number) {
    await setToken(token);
    await SecureStore.setItemAsync(USER_ID_KEY, String(userId));
  }
  \<close>
  The user id is an integer (the credential is \<open>{token: string, userId: integer}\<close>).
\<close>

definition setAuth :: "string \<Rightarrow> int \<Rightarrow> unit io" where
  "setAuth token userId =
     bind (setToken token) (\<lambda>_. setItemAsync USER_ID_KEY (String_int userId))"

text \<open>
  \<^verbatim>\<open>
  export async function getUserId(): Promise<number | null> {
    try {
      const v = await SecureStore.getItemAsync(USER_ID_KEY);
      return v ? Number(v) : null;
    } catch {
      return null;
    }
  }
  \<close>
  The conversion \<open>Number(v)\<close> of the stored text is the parameter \<open>Number\<close>.
\<close>

definition getUserId :: "(string \<Rightarrow> 'n) \<Rightarrow> ('n option) io" where
  "getUserId Number =
     try_catch
       (bind (getItemAsync USER_ID_KEY)
          (\<lambda>v. ret (case v of None \<Rightarrow> None | Some s \<Rightarrow> if s = [] then None else Some (Number s))))
       (\<lambda>e. ret None)"

text \<open>
  \<^verbatim>\<open>
  export async function clearAuth() {
    await clearToken();
    try {
      await SecureStore.deleteItemAsync(USER_ID_KEY);
    } catch {
      // ignore
    }
  }
  \<close>
\<close>

definition clearAuth :: "unit io" where
  "clearAuth = bind clearToken (\<lambda>_. try_catch (deleteItemAsync USER_ID_KEY) (\<lambda>e. ret ()))"

section \<open>The API client (mobile/lib/api.ts)\<close>

text \<open>
  What the client takes from its JavaScript runtime and its build: the manifest and the
  environment variable the base URL is resolved from, the HTTP transport \<open>fetch\<close> (the
  server's answer to a request, or the transport's failure), \<open>JSON.parse\<close> (\<open>None\<close> when
  it throws a \<open>SyntaxError\<close>), \<open>JSON.stringify\<close>, and for numbers their rendering as a
  string and whether they are falsy (\<open>0\<close>, \<open>-0\<close>, \<open>NaN\<close>).
\<close>

record 'n runtime =
  Constants :: expo_constants
  env_EXPO_PUBLIC_API_BASE_URL :: "string option"
  fetch :: "http_request \<Rightarrow> js_error + response"
  JSON_parse :: "string \<Rightarrow> 'n json option"
  JSON_stringify :: "'n json \<Rightarrow> string"
  Number_toString :: "'n \<Rightarrow> string"
  Number_falsy :: "'n \<Rightarrow> bool"

text \<open>\<^verbatim>\<open>export const BASE_URL = getApiBaseUrl();\<close>\<close>

definition BASE_URL :: "'n runtime \<Rightarrow> string" where
  "BASE_URL rt = getApiBaseUrl (Constants rt) (env_EXPO_PUBLIC_API_BASE_URL rt)"

subsection \<open>Truthiness, property access and \<open>ToString\<close>\<close>

text \<open>A value that may be \<open>undefined\<close> is a \<open>'n json option\<close>.\<close>

fun truthy :: "'n runtime \<Rightarrow> 'n json option \<Rightarrow> bool" where
  "truthy rt None = False"
| "truthy rt (Some JNull) = False"
| "truthy rt (Some (JBool b)) = b"
| "truthy rt (Some (JNum n)) = (\<not> Number_falsy rt n)"
| "truthy rt (Some (JStr s)) = (s \<noteq> [])"
| "truthy rt (Some (JArr xs)) = True"
| "truthy rt (Some (JObj kvs)) = True"

text \<open>\<open>a || b\<close> and \<open>a && b\<close>.\<close>

definition js_or :: "'n runtime \<Rightarrow> 'n json option \<Rightarrow> 'n json option \<Rightarrow> 'n json option" where
  "js_or rt a b = (if truthy rt a then a else b)"

definition js_and :: "'n runtime \<Rightarrow> 'n json option \<Rightarrow> 'n json option \<Rightarrow> 'n json option" where
  "js_and rt a b = (if truthy rt a then b else a)"

text \<open>\<open>data.key\<close> on a truthy value decoded from JSON: an object's own property, and
  \<open>undefined\<close> on everything else (no prototype of these values has a \<open>detail\<close> or a
  \<open>message\<close>). The client reads a property only behind \<open>data &&\<close>, so never on \<open>null\<close>.\<close>

fun get_prop :: "'n json \<Rightarrow> string \<Rightarrow> 'n json option" where
  "get_prop (JObj kvs) k = map_of kvs k"
| "get_prop _ k = None"

fun join :: "string \<Rightarrow> string list \<Rightarrow> string" where
  "join sep [] = []"
| "join sep [x] = x"
| "join sep (x # y # ys) = x @ sep @ join sep (y # ys)"

text \<open>\<open>String(v)\<close> of a value decoded from JSON: an array prints its elements joined by
  commas, with \<open>null\<close> elements printed as nothing; a plain object prints as
  \<open>[object Object]\<close>.\<close>

fun ToString :: "'n runtime \<Rightarrow> 'n json \<Rightarrow> string" where
  "ToString rt JNull = ''null''"
| "ToString rt (JBool b) = (if b then ''true'' else ''false'')"
| "ToString rt (JNum n) = Number_toString rt n"
| "ToString rt (JStr s) = s"
| "ToString rt (JArr xs) =
     join '','' (map (\<lambda>x. case x of JNull \<Rightarrow> [] | _ \<Rightarrow> ToString rt x) xs)"
| "ToString rt (JObj kvs) = ''[object Object]''"

text \<open>The message of \<open>new Error(msg)\<close>: empty for \<open>undefined\<close>, else \<open>String(msg)\<close>.\<close>

definition Error_of :: "'n runtime \<Rightarrow> 'n json option \<Rightarrow> js_error" where
  "Error_of rt msg = Error (case msg of None \<Rightarrow> [] | Some v \<Rightarrow> ToString rt v)"

subsection \<open>\<open>request\<close>\<close>

text \<open>
  \<^verbatim>\<open>
  export async function request<T>(path: string, method: HttpMethod, body?: unknown): Promise<T> {
    const token = await getToken();

    const headers: Record<string, string> = { "Content-Type": "application/json" };
    if (token) headers.Authorization = `Bearer ${token}`;

    const res = await fetch(`${BASE_URL}${path}`, {
      method, headers, body: body !== undefined ? JSON.stringify(body) : undefined,
    });

    if (res.status === 401) {
      await clearToken();
      throw new Error("Session expired. Please log in again.");
    }

    const text = await res.text();
    let data: any = null;
    try {
      data = text ? JSON.parse(text) : null;
    } catch {
      data = text;
    }

    if (!res.ok) {
      const msg =
        (data && (data.detail || data.message)) ||
        (typeof data === "string" ? data : "") ||
        `Request failed (${res.status})`;
      throw new Error(msg);
    }

    return data as T;
  }
  \<close>
\<close>

definition build_headers :: "string option \<Rightarrow> (string \<times> string) list" where
  "build_headers token =
     [(''Content-Type'', ''application/json'')] @
     (case token of
        None \<Rightarrow> []
      | Some t \<Rightarrow> if t = [] then [] else [(''Authorization'', ''Bearer '' @ t)])"

definition do_fetch :: "'n runtime \<Rightarrow> http_request \<Rightarrow> response io" where
  "do_fetch rt req = (\<lambda>w. (fetch rt req, emit (Fetch req) w))"

definition read_text :: "response \<Rightarrow> string io" where
  "read_text res = (\<lambda>w. (res_text res, emit ReadText w))"

definition do_parse :: "'n runtime \<Rightarrow> string \<Rightarrow> ('n json) io" where
  "do_parse rt text = (\<lambda>w.
     (case JSON_parse rt text of None \<Rightarrow> Inl SyntaxError | Some v \<Rightarrow> Inr v,
      emit (JsonParse text) w))"

definition parse_body :: "'n runtime \<Rightarrow> string \<Rightarrow> ('n json) io" where
  "parse_body rt text =
     try_catch (if text \<noteq> [] then do_parse rt text else ret JNull) (\<lambda>e. ret (JStr text))"

definition SESSION_EXPIRED :: string where
  "SESSION_EXPIRED = ''Session expired. Please log in again.''"

definition error_msg :: "'n runtime \<Rightarrow> 'n json \<Rightarrow> nat \<Rightarrow> 'n json option" where
  "error_msg rt data status =
     js_or rt
       (js_or rt
          (js_and rt (Some data) (js_or rt (get_prop data ''detail'') (get_prop data ''message'')))
          (Some (case data of JStr s \<Rightarrow> data | _ \<Rightarrow> JStr [])))
       (Some (JStr (''Request failed ('' @ show_nat status @ '')'')))"

definition request :: "'n runtime \<Rightarrow> string \<Rightarrow> HttpMethod \<Rightarrow> 'n json option \<Rightarrow> ('n json) io" where
  "request rt path method body =
     bind getToken (\<lambda>token.
     bind (do_fetch rt
             \<lparr>req_url = BASE_URL rt @ path,
              req_method = method,
              req_headers = build_headers token,
              req_body = (case body of None \<Rightarrow> None | Some b \<Rightarrow> Some (JSON_stringify rt b))\<rparr>)
       (\<lambda>res.
     if res_status res = 401 then
       bind clearToken (\<lambda>_. throw (Error SESSION_EXPIRED))
     else
       bind (read_text res) (\<lambda>text.
       bind (parse_body rt text) (\<lambda>data.
       if \<not> res_ok res then throw (Error_of rt (error_msg rt data (res_status res)))
       else ret data))))"

section \<open>CSV export (mobile/app/(tabs)/reports.tsx)\<close>

text \<open>
  \<^verbatim>\<open>
  function csvEscape(v: unknown): string {
    const s = String(v ?? "");
    if (/[",\n\r]/.test(s)) return `"${s.replace(/"/g, '""')}"`;
    return s;
  }
  \<close>
  The cell is a value of a record decoded from JSON, or \<open>undefined\<close>.
\<close>

definition DQ :: char where
  "DQ = CHR 0x22"

definition csv_special :: "char \<Rightarrow> bool" where
  "csv_special c \<longleftrightarrow> c = DQ \<or> c = CHR '','' \<or> c = CHR 0x0A \<or> c = CHR 0x0D"

definition double_quotes :: "string \<Rightarrow> string" where
  "double_quotes s = concat (map (\<lambda>c. if c = DQ then [DQ, DQ] else [c]) s)"

definition cell_text :: "'n runtime \<Rightarrow> 'n json option \<Rightarrow> string" where
  "cell_text rt v = (case v of None \<Rightarrow> [] | Some JNull \<Rightarrow> [] | Some x \<Rightarrow> ToString rt x)"

definition csvEscape :: "'n runtime \<Rightarrow> 'n json option \<Rightarrow> string" where
  "csvEscape rt v =
     (let s = cell_text rt v
      in if (\<exists>c \<in> set s. csv_special c) then [DQ] @ double_quotes s @ [DQ] else s)"

subsection \<open>Reading a CSV record back\<close>

text \<open>The client only writes CSV. To state that a written row can be read back, this is
  the reading of one record after RFC 4180: fields are separated by commas; a field that
  starts with a double quote runs to the closing double quote, and two double quotes
  inside it stand for one.\<close>

datatype csv_state = FieldStart | Unquoted | Quoted | QuoteSeen

fun csv_read :: "csv_state \<Rightarrow> string \<Rightarrow> string \<Rightarrow> string list" where
  "csv_read st acc [] = [acc]"
| "csv_read FieldStart acc (c # cs) =
     (if c = DQ then csv_read Quoted [] cs
      else if c = CHR '','' then [] # csv_read FieldStart [] cs
      else csv_read Unquoted [c] cs)"
| "csv_read Unquoted acc (c # cs) =
     (if c = CHR '','' then acc # csv_read FieldStart [] cs
      else csv_read Unquoted (acc @ [c]) cs)"
| "csv_read Quoted acc (c # cs) =
     (if c = DQ then csv_read QuoteSeen acc cs
      else csv_read Quoted (acc @ [c]) cs)"
| "csv_read QuoteSeen acc (c # cs) =
     (if c = DQ then csv_read Quoted (acc @ [DQ]) cs
      else if c = CHR '','' then acc # csv_read FieldStart [] cs
      else csv_read Unquoted (acc @ [c]) cs)"

definition csv_read_row :: "string \<Rightarrow> string list" where
  "csv_read_row s = csv_read FieldStart [] s"

section \<open>Observing a run\<close>

text \<open>The platform calls a run from \<open>w\<close> to \<open>w'\<close> made, oldest first.\<close>

definition new_events :: "world \<Rightarrow> world \<Rightarrow> event list" where
  "new_events w w' = drop (length (log w)) (log w')"

text \<open>The requests handed to the HTTP transport.\<close>

fun fetched :: "event list \<Rightarrow> http_request list" where
  "fetched [] = []"
| "fetched (Fetch r # evs) = r # fetched evs"
| "fetched (_ # evs) = fetched evs"

text \<open>The texts handed to \<open>JSON.parse\<close>.\<close>

fun parsed :: "event list \<Rightarrow> string list" where
  "parsed [] = []"
| "parsed (JsonParse t # evs) = t # parsed evs"
| "parsed (_ # evs) = parsed evs"

text \<open>The request a call to \<open>request\<close> from the world \<open>w\<close> builds: the token is what
  \<open>getToken\<close> gives there.\<close>

definition sent_request ::
  "'n runtime \<Rightarrow> string \<Rightarrow> HttpMethod \<Rightarrow> 'n json option \<Rightarrow> world \<Rightarrow> http_request" where
  "sent_request rt path method body w =
     \<lparr>req_url = BASE_URL rt @ path,
      req_method = method,
      req_headers = build_headers (case fst (getToken w) of Inl e \<Rightarrow> None | Inr token \<Rightarrow> token),
      req_body = (case body of None \<Rightarrow> None | Some b \<Rightarrow> Some (JSON_stringify rt b))\<rparr>"

text \<open>Whether, under the fault plan \<open>fs\<close>, the \<open>k\<close>-th storage call from now on (counting
  from 0) throws.\<close>

definition fault_at :: "nat \<Rightarrow> bool list \<Rightarrow> bool" where
  "fault_at k fs \<longleftrightarrow> k < length fs \<and> fs ! k"

text \<open>A runtime over integer-valued numbers, for running the client on concrete inputs:
  no build-time configuration, the given server, numbers printed in decimal and falsy
  when zero. Its \<open>JSON.stringify\<close> prints a value as JSON (strings without control
  characters); its \<open>JSON.parse\<close> decodes the JSON texts of the listed values and rejects
  every other text.\<close>

definition quote_json :: "string \<Rightarrow> string" where
  "quote_json s =
     [DQ] @ concat (map (\<lambda>c. if c = DQ \<or> c = CHR 0x5C then [CHR 0x5C, c] else [c]) s) @ [DQ]"

fun demo_stringify :: "int json \<Rightarrow> string" where
  "demo_stringify JNull = ''null''"
| "demo_stringify (JBool b) = (if b then ''true'' else ''false'')"
| "demo_stringify (JNum n) = String_int n"
| "demo_stringify (JStr s) = quote_json s"
| "demo_stringify (JArr xs) = ''['' @ join '','' (map demo_stringify xs) @ '']''"
| "demo_stringify (JObj kvs) =
     ''{'' @ join '','' (map (\<lambda>(k, v). quote_json k @ '':'' @ demo_stringify v) kvs) @ ''}''"

definition decoding :: "int json list \<Rightarrow> string \<Rightarrow> int json option" where
  "decoding vals = map_of (map (\<lambda>v. (demo_stringify v, v)) vals)"

definition demo_runtime ::
  "(http_request \<Rightarrow> js_error + response) \<Rightarrow> int json list \<Rightarrow> int runtime" where
  "demo_runtime server vals =
     \<lparr>Constants = \<lparr>expoConfig_extra = None, manifest_extra = None, manifest2_extra = None\<rparr>,
      env_EXPO_PUBLIC_API_BASE_URL = None,
      fetch = server,
      JSON_parse = decoding vals,
      JSON_stringify = demo_stringify,
      Number_toString = String_int,
      Number_falsy = (\<lambda>n. n = 0)\<rparr>"

text \<open>A world with the given stored token, no user id, no storage faults, an empty log.\<close>

definition logged_in :: "string \<Rightarrow> world" where
  "logged_in t = \<lparr>items = [TOKEN_KEY \<mapsto> t], faults = [], log = []\<rparr>"

definition logged_out :: world where
  "logged_out = \<lparr>items = Map.empty, faults = [], log = []\<rparr>"

text \<open>A server that answers every request with the given status and body text.\<close>

definition answering :: "nat \<Rightarrow> string \<Rightarrow> http_request \<Rightarrow> js_error + response" where
  "answering st raw = (\<lambda>req. Inr \<lparr>res_status = st, res_text = Inr raw\<rparr>)"

text \<open>Values and a cell list to run the client on.\<close>

definition JOBS :: "int json" where
  "JOBS = JArr [JObj [(''id'', JNum 1), (''title'', JStr ''Install'')]]"

definition DETAIL_X :: "int json" where
  "DETAIL_X = JObj [(''detail'', JStr ''X'')]"

definition MESSAGE_Y :: "int json" where
  "MESSAGE_Y = JObj [(''message'', JStr ''Y'')]"

definition EMPTY_DETAIL :: "int json" where
  "EMPTY_DETAIL = JObj [(''detail'', JStr []), (''message'', JStr ''Y'')]"

definition NEW_JOB :: "int json" where
  "NEW_JOB = JObj [(''title'', JStr ''Install'')]"

definition CELLS :: "int json option list" where
  "CELLS = [Some (JNum 7), Some (JStr ''Install, paint''), None, Some JNull,
            Some (JStr (''say '' @ [DQ] @ ''hi'' @ [DQ]))]"

section \<open>Basic facts about the effect model\<close>

lemma fault_at_tl [simp]: "fault_at k (tl fs) = fault_at (Suc k) fs"
  by (cases fs) (auto simp add: fault_at_def)

lemma fault_at_Nil [simp]: "\<not> fault_at k []"
  by (simp add: fault_at_def)

lemma fault_at_Cons_0 [simp]: "fault_at 0 (f # fs) = f"
  by (simp add: fault_at_def)

lemma fault_at_Cons_Suc [simp]: "fault_at (Suc k) (f # fs) = fault_at k fs"
  by (simp add: fault_at_def)

lemma next_fault_eq: "next_fault w = (fault_at 0 (faults w), w\<lparr>faults := tl (faults w)\<rparr>)"
  by (cases "faults w") (simp_all add: next_fault_def fault_at_def)

lemma getItemAsync_eq:
  "getItemAsync k w =
     (if fault_at 0 (faults w) then Inl StorageFailure else Inr (items w k),
      w\<lparr>faults := tl (faults w), log := log w @ [StoreGet k]\<rparr>)"
  by (simp add: getItemAsync_def next_fault_eq emit_def)

lemma setItemAsync_eq:
  "setItemAsync k v w =
     (if fault_at 0 (faults w) then Inl StorageFailure else Inr (),
      w\<lparr>items := (if fault_at 0 (faults w) then items w else (items w)(k \<mapsto> v)),
        faults := tl (faults w), log := log w @ [StoreSet k v]\<rparr>)"
  by (simp add: setItemAsync_def next_fault_eq emit_def)

lemma deleteItemAsync_eq:
  "deleteItemAsync k w =
     (if fault_at 0 (faults w) then Inl StorageFailure else Inr (),
      w\<lparr>items := (if fault_at 0 (faults w) then items w else (items w)(k := None)),
        faults := tl (faults w), log := log w @ [StoreDelete k]\<rparr>)"
  by (simp add: deleteItemAsync_def next_fault_eq emit_def)

section \<open>The token store never loses control, except in \<open>setAuth\<close>\<close>

text \<open>What each operation returns and does to the world, whatever the fault plan.\<close>

lemma getToken_eq:
  "getToken w =
     (Inr (if fault_at 0 (faults w) then None else items w TOKEN_KEY),
      w\<lparr>faults := tl (faults w), log := log w @ [StoreGet TOKEN_KEY]\<rparr>)"
  by (simp add: getToken_def try_catch_def bind_def ret_def getItemAsync_eq nullish_def
           split: option.splits)

lemma setToken_eq:
  "setToken t w =
     (Inr (),
      if t = [] then w
      else w\<lparr>items := (if fault_at 0 (faults w) then items w else (items w)(TOKEN_KEY \<mapsto> t)),
             faults := tl (faults w), log := log w @ [StoreSet TOKEN_KEY t]\<rparr>)"
  by (simp add: setToken_def try_catch_def ret_def setItemAsync_eq)

lemma clearToken_eq:
  "clearToken w =
     (Inr (),
      w\<lparr>items := (if fault_at 0 (faults w) then items w else (items w)(TOKEN_KEY := None)),
        faults := tl (faults w), log := log w @ [StoreDelete TOKEN_KEY]\<rparr>)"
  by (simp add: clearToken_def try_catch_def ret_def deleteItemAsync_eq)

lemma getToken_never_raises: "\<exists>v w'. getToken w = (Inr v, w')"
  by (simp add: getToken_eq)

lemma setToken_never_raises: "\<exists>w'. setToken t w = (Inr (), w')"
  by (simp add: setToken_eq)

lemma clearToken_never_raises: "\<exists>w'. clearToken w = (Inr (), w')"
  by (simp add: clearToken_eq)

lemma getUserId_never_raises: "\<exists>v w'. getUserId Number w = (Inr v, w')"
  by (simp add: getUserId_def try_catch_def bind_def ret_def getItemAsync_eq)

lemma clearAuth_eq:
  "clearAuth w =
     (Inr (),
      w\<lparr>items := (\<lambda>k. if k = TOKEN_KEY \<and> \<not> fault_at 0 (faults w) then None
                       else if k = USER_ID_KEY \<and> \<not> fault_at 1 (faults w) then None
                       else items w k),
        faults := tl (tl (faults w)),
        log := log w @ [StoreDelete TOKEN_KEY, StoreDelete USER_ID_KEY]\<rparr>)"
  by (auto simp add: clearAuth_def try_catch_def bind_def ret_def deleteItemAsync_eq clearToken_eq
       TOKEN_KEY_def USER_ID_KEY_def fun_eq_iff)

lemma clearAuth_never_raises: "\<exists>w'. clearAuth w = (Inr (), w')"
  by (simp add: clearAuth_eq)

text \<open>\<open>setAuth\<close> raises exactly when the storage refuses the write of the user id.\<close>

lemma setAuth_raises_iff:
  "(\<exists>e. fst (setAuth t u w) = Inl e) \<longleftrightarrow> fault_at (if t = [] then 0 else 1) (faults w)"
  by (simp add: setAuth_def bind_def setToken_eq setItemAsync_eq)

lemma String_int_7: "String_int 7 = ''7''"
  by code_simp

lemma String_int_1: "String_int 1 = ''1''"
  by code_simp

text \<open>
  Claim C4. Every token store operation completes without raising even when the secure
  storage fails. \<open>getToken\<close>, \<open>setToken\<close>, \<open>clearToken\<close>, \<open>getUserId\<close> and \<open>clearAuth\<close>
  do (the lemmas above); \<open>setAuth\<close> does not: its write of the user id is outside any
  \<open>try\<close>, so when the token is stored and the write of the user id then fails, \<open>setAuth\<close>
  rejects with the storage's error, the token already written.
\<close>

theorem setAuth_raises_when_user_id_write_fails:
  "setAuth ''abc'' 7 \<lparr>items = Map.empty, faults = [False, True], log = []\<rparr> =
     (Inl StorageFailure,
      \<lparr>items = [TOKEN_KEY \<mapsto> ''abc''], faults = [],
       log = [StoreSet TOKEN_KEY ''abc'', StoreSet USER_ID_KEY ''7'']\<rparr>)"
  by (simp add: setAuth_def bind_def setToken_eq setItemAsync_eq String_int_7)

text \<open>
  Claim C6. \<open>setToken("")\<close> is a no-op: it returns without touching the storage, so a
  following \<open>getToken()\<close> behaves exactly as it would have before, and returns the
  stored token \<open>t\<close> whenever the storage holds one and the read does not fail.
\<close>

theorem setToken_empty_is_noop:
  "setToken [] w = (Inr (), w) \<and>
   bind (setToken []) (\<lambda>_. getToken) w = getToken w \<and>
   (items w TOKEN_KEY = Some t \<and> \<not> fault_at 0 (faults w) \<longrightarrow>
      fst (bind (setToken []) (\<lambda>_. getToken) w) = Inr (Some t))"
  by (simp add: bind_def setToken_eq getToken_eq)

theorem setToken_empty_is_noop_witness:
  "items (snd (setToken ''abc'' logged_out)) TOKEN_KEY = Some ''abc'' \<and>
   \<not> fault_at 0 (faults (snd (setToken ''abc'' logged_out))) \<and>
   fst (bind (setToken ''abc'') (\<lambda>_. bind (setToken []) (\<lambda>_. getToken)) logged_out)
     = Inr (Some ''abc'')"
  using setToken_empty_is_noop [of "snd (setToken ''abc'' logged_out)" "''abc''"]
  by (simp add: bind_def setToken_eq logged_out_def)

section \<open>\<open>withJobId\<close>\<close>

lemma digit_char_unreserved: "uri_unreserved (digit_char d)"
proof -
  have "\<forall>k \<in> set [0..<10]. uri_unreserved (''0123456789'' ! k)"
    by (simp add: upt_rec uri_unreserved_def)
  moreover have "d mod 10 \<in> set [0..<10]" by simp
  ultimately show ?thesis
    unfolding digit_char_def by blast
qed

lemma show_nat_unreserved: "\<forall>c \<in> set (show_nat n). uri_unreserved c"
proof (induction n rule: show_nat.induct)
  case (1 n)
  show ?case
  proof (cases "n < 10")
    case True
    then show ?thesis by (subst show_nat.simps) (simp add: digit_char_unreserved)
  next
    case False
    with 1 show ?thesis by (subst show_nat.simps) (simp add: digit_char_unreserved)
  qed
qed

lemma minus_unreserved: "uri_unreserved (CHR ''-'')"
  by (simp add: uri_unreserved_def)

lemma String_int_unreserved: "\<forall>c \<in> set (String_int j). uri_unreserved c"
  by (simp add: String_int_def show_nat_unreserved minus_unreserved)

lemma encodeURIComponent_unreserved:
  "\<forall>c \<in> set s. uri_unreserved c \<Longrightarrow> encodeURIComponent s = s"
  by (induction s) (simp_all add: encodeURIComponent_def encode_char_def)

text \<open>
  Claim C5. \<open>withJobId(path, jobId)\<close> returns \<open>path\<close> unchanged when \<open>jobId\<close> is null or
  absent; for a job id \<open>j\<close> (an integer a JavaScript number holds exactly) it appends
  \<open>?job_id=j\<close> when \<open>path\<close> contains no \<open>?\<close> and \<open>&job_id=j\<close> when it does, \<open>j\<close> in
  decimal: percent-encoding leaves the digits and the sign of an integer as they are.
\<close>

theorem withJobId_appends_job_id:
  "withJobId path None = path \<and>
   (isSafeInteger j \<longrightarrow>
      withJobId path (Some j) =
        path @ (if CHR ''?'' \<in> set path then ''&'' else ''?'') @ ''job_id='' @ String_int j)"
  by (simp add: withJobId_def encodeURIComponent_unreserved String_int_unreserved)

theorem withJobId_appends_job_id_witness:
  "isSafeInteger 7 \<and>
   withJobId ''/invoices'' None = ''/invoices'' \<and>
   withJobId ''/invoices'' (Some 7) = ''/invoices?job_id=7'' \<and>
   withJobId ''/invoices?x=1'' (Some 7) = ''/invoices?x=1&job_id=7''"
  using withJobId_appends_job_id [of "''/invoices''" 7]
        withJobId_appends_job_id [of "''/invoices?x=1''" 7]
  by (simp add: isSafeInteger_def String_int_7)

section \<open>The base URL\<close>

text \<open>
  Claim C9, as stated: with no build-time \<open>apiBaseUrl\<close> configured, the base URL is the
  hard-coded fallback whatever the process environment holds. It is not: with an empty
  manifest and \<open>EXPO_PUBLIC_API_BASE_URL\<close> set, the base URL is the variable's value.
\<close>

theorem API_BASE_URL_env_counterexample:
  "apiBaseUrl (readExtra \<lparr>expoConfig_extra = None, manifest_extra = None, manifest2_extra = None\<rparr>)
     = None \<and>
   API_BASE_URL \<lparr>expoConfig_extra = None, manifest_extra = None, manifest2_extra = None\<rparr>
     (Some ''http://localhost:8000'') = ''http://localhost:8000'' \<and>
   API_BASE_URL \<lparr>expoConfig_extra = None, manifest_extra = None, manifest2_extra = None\<rparr>
     (Some ''http://localhost:8000'') \<noteq> FALLBACK_URL"
  by (simp add: API_BASE_URL_def readExtra_def nullish_def or_else_def FALLBACK_URL_def)

text \<open>
  Claim C9, amended. The base URL is the manifest's \<open>apiBaseUrl\<close> when that is a
  non-empty string; else the environment variable \<open>EXPO_PUBLIC_API_BASE_URL\<close> when that is
  a non-empty string; else the hard-coded fallback. So with neither configured the base
  URL is exactly the fallback.
\<close>

theorem API_BASE_URL_resolution:
  "(str_truthy (apiBaseUrl (readExtra c)) \<longrightarrow> Some (API_BASE_URL c env) = apiBaseUrl (readExtra c)) \<and>
   (\<not> str_truthy (apiBaseUrl (readExtra c)) \<and> str_truthy env \<longrightarrow> Some (API_BASE_URL c env) = env) \<and>
   (\<not> str_truthy (apiBaseUrl (readExtra c)) \<and> \<not> str_truthy env \<longrightarrow>
      API_BASE_URL c env = FALLBACK_URL)"
  by (auto simp add: API_BASE_URL_def or_else_def str_truthy_def split: option.splits)

theorem API_BASE_URL_resolution_witness:
  "str_truthy (apiBaseUrl (readExtra
      \<lparr>expoConfig_extra = None, manifest_extra = Some \<lparr>apiBaseUrl = Some ''https://api.test''\<rparr>,
       manifest2_extra = None\<rparr>)) \<and>
   API_BASE_URL
      \<lparr>expoConfig_extra = None, manifest_extra = Some \<lparr>apiBaseUrl = Some ''https://api.test''\<rparr>,
       manifest2_extra = None\<rparr> (Some ''http://localhost:8000'') = ''https://api.test'' \<and>
   \<not> str_truthy (apiBaseUrl (readExtra
      \<lparr>expoConfig_extra = Some \<lparr>apiBaseUrl = Some []\<rparr>, manifest_extra = None,
       manifest2_extra = None\<rparr>)) \<and>
   str_truthy (Some ''http://localhost:8000'') \<and>
   API_BASE_URL
      \<lparr>expoConfig_extra = Some \<lparr>apiBaseUrl = Some []\<rparr>, manifest_extra = None,
       manifest2_extra = None\<rparr> (Some ''http://localhost:8000'') = ''http://localhost:8000'' \<and>
   \<not> str_truthy None \<and>
   API_BASE_URL
      \<lparr>expoConfig_extra = Some \<lparr>apiBaseUrl = Some []\<rparr>, manifest_extra = None,
       manifest2_extra = None\<rparr> None = ''https://jobflow-backend-bhvw.onrender.com''"
  using API_BASE_URL_resolution
          [of "\<lparr>expoConfig_extra = None,
                manifest_extra = Some \<lparr>apiBaseUrl = Some ''https://api.test''\<rparr>,
                manifest2_extra = None\<rparr>" "Some ''http://localhost:8000''"]
        API_BASE_URL_resolution
          [of "\<lparr>expoConfig_extra = Some \<lparr>apiBaseUrl = Some []\<rparr>, manifest_extra = None,
                manifest2_extra = None\<rparr>" "Some ''http://localhost:8000''"]
        API_BASE_URL_resolution
          [of "\<lparr>expoConfig_extra = Some \<lparr>apiBaseUrl = Some []\<rparr>, manifest_extra = None,
                manifest2_extra = None\<rparr>" None]
  by (simp add: readExtra_def nullish_def str_truthy_def FALLBACK_URL_def)

section \<open>\<open>request\<close>\<close>

text \<open>The whole of \<open>request\<close> in one equation: what it returns and the world it leaves,
  by the answer of the transport.\<close>

lemma parse_body_eq:
  "parse_body rt text w =
     (Inr (if text = [] then JNull
           else case JSON_parse rt text of None \<Rightarrow> JStr text | Some v \<Rightarrow> v),
      if text = [] then w else w\<lparr>log := log w @ [JsonParse text]\<rparr>)"
  by (simp add: parse_body_def try_catch_def ret_def do_parse_def emit_def split: option.splits)

lemma request_eq:
  "request rt path meth body w =
     (let req = sent_request rt path meth body w;
          w2 = w\<lparr>faults := tl (faults w), log := log w @ [StoreGet TOKEN_KEY, Fetch req]\<rparr>
      in case fetch rt req of
           Inl e \<Rightarrow> (Inl e, w2)
         | Inr res \<Rightarrow>
             if res_status res = 401 then
               (Inl (Error SESSION_EXPIRED),
                w\<lparr>items := (if fault_at 1 (faults w) then items w else (items w)(TOKEN_KEY := None)),
                  faults := tl (tl (faults w)),
                  log := log w @ [StoreGet TOKEN_KEY, Fetch req, StoreDelete TOKEN_KEY]\<rparr>)
             else
               (case res_text res of
                  Inl e \<Rightarrow> (Inl e, w2\<lparr>log := log w @ [StoreGet TOKEN_KEY, Fetch req, ReadText]\<rparr>)
                | Inr text \<Rightarrow>
                    let data = (if text = [] then JNull
                                else case JSON_parse rt text of None \<Rightarrow> JStr text | Some v \<Rightarrow> v);
                        w4 = w2\<lparr>log := log w @ [StoreGet TOKEN_KEY, Fetch req, ReadText] @
                                       (if text = [] then [] else [JsonParse text])\<rparr>
                    in if res_ok res then (Inr data, w4)
                       else (Inl (Error_of rt (error_msg rt data (res_status res))), w4)))"
  by (simp add: request_def bind_def getToken_eq do_fetch_def emit_def clearToken_eq throw_def
        read_text_def parse_body_eq ret_def Let_def sent_request_def split: sum.splits)

lemma request_fetched:
  "fetched (new_events w (snd (request rt path meth body w)))
     = [sent_request rt path meth body w]"
  by (simp add: request_eq Let_def new_events_def split: sum.splits)

lemma request_sent:
  assumes "request rt path meth body w = (r, w')"
      and "fetched (new_events w w') = [req]"
  shows "req = sent_request rt path meth body w"
  using assms request_fetched [of w rt path meth body] by simp

lemma get_prop_Some_truthy: "get_prop data k = Some d \<Longrightarrow> truthy rt (Some data)"
  by (cases data) simp_all

lemma error_msg_priority:
  "(\<forall>d. get_prop data ''detail'' = Some d \<and> truthy rt (Some d) \<longrightarrow>
      Error_of rt (error_msg rt data st) = Error (ToString rt d)) \<and>
   (\<forall>m. \<not> truthy rt (get_prop data ''detail'') \<and>
        get_prop data ''message'' = Some m \<and> truthy rt (Some m) \<longrightarrow>
      Error_of rt (error_msg rt data st) = Error (ToString rt m)) \<and>
   (\<forall>s. \<not> truthy rt (get_prop data ''detail'') \<and> \<not> truthy rt (get_prop data ''message'') \<and>
        data = JStr s \<and> s \<noteq> [] \<longrightarrow>
      Error_of rt (error_msg rt data st) = Error s) \<and>
   (\<not> truthy rt (get_prop data ''detail'') \<and> \<not> truthy rt (get_prop data ''message'') \<and>
    (\<forall>s. data = JStr s \<longrightarrow> s = []) \<longrightarrow>
      Error_of rt (error_msg rt data st) = Error (''Request failed ('' @ show_nat st @ '')''))"
  by (cases data)
     (auto simp add: Error_of_def error_msg_def js_or_def js_and_def get_prop_Some_truthy)

lemma request_not_ok:
  assumes "request rt path meth body w = (r, w')"
      and "fetched (new_events w w') = [req]"
      and "fetch rt req = Inr res"
      and "res_status res \<noteq> 401"
      and "\<not> res_ok res"
      and "res_text res = Inr raw"
  shows "r = Inl (Error_of rt (error_msg rt
               (if raw = [] then JNull
                else case JSON_parse rt raw of None \<Rightarrow> JStr raw | Some v \<Rightarrow> v)
               (res_status res)))"
  using assms(1,3-6) unfolding request_sent [OF assms(1,2)]
  by (simp add: request_eq Let_def)

subsection \<open>Running the client on concrete inputs\<close>

lemmas demo_simps =
  demo_runtime_def answering_def logged_in_def logged_out_def
  BASE_URL_def getApiBaseUrl_def API_BASE_URL_def readExtra_def nullish_def or_else_def
  FALLBACK_URL_def new_events_def res_ok_def decoding_def

lemma demo_fetch:
  "fetch (demo_runtime (answering st raw) vals) req = Inr \<lparr>res_status = st, res_text = Inr raw\<rparr>"
  by (simp add: demo_simps)

lemma demo_pair:
  "request R p m b w = (fst (request R p m b w), snd (request R p m b w))"
  by simp

lemma demo_log:
  "new_events (logged_in t) w' = log w'"
  by (simp add: new_events_def logged_in_def)

lemma show_nat_500: "show_nat 500 = ''500''"
  by code_simp

text \<open>
  Claim C1, as stated: on every 401 the stored token is cleared. It is not when the secure
  storage refuses the deletion: \<open>clearToken\<close> ignores that failure, so with a stored token
  \<open>abc\<close>, a token read that works and a deletion that fails, the call still fails with
  the session-expired error and the token \<open>abc\<close> stays stored.
\<close>

theorem request_401_token_kept_counterexample:
  "fetch (demo_runtime (answering 401 ''Unauthorized'') [])
     (sent_request (demo_runtime (answering 401 ''Unauthorized'') []) ''/jobs'' GET None
        (logged_in ''abc''\<lparr>faults := [False, True]\<rparr>))
     = Inr \<lparr>res_status = 401, res_text = Inr ''Unauthorized''\<rparr> \<and>
   request (demo_runtime (answering 401 ''Unauthorized'') []) ''/jobs'' GET None
     (logged_in ''abc''\<lparr>faults := [False, True]\<rparr>)
     = (Inl (Error ''Session expired. Please log in again.''),
        \<lparr>items = [TOKEN_KEY \<mapsto> ''abc''], faults = [],
         log = [StoreGet TOKEN_KEY,
                Fetch (sent_request (demo_runtime (answering 401 ''Unauthorized'') []) ''/jobs'' GET
                         None (logged_in ''abc''\<lparr>faults := [False, True]\<rparr>)),
                StoreDelete TOKEN_KEY]\<rparr>) \<and>
   items (snd (request (demo_runtime (answering 401 ''Unauthorized'') []) ''/jobs'' GET None
                 (logged_in ''abc''\<lparr>faults := [False, True]\<rparr>))) TOKEN_KEY = Some ''abc''"
  by (simp add: request_eq Let_def demo_simps SESSION_EXPIRED_def)

text \<open>
  Claim C1, amended. When the response to the request a call sent has status 401, whatever
  the response body: the call fails with the session-expired error; after the token read
  and the fetch, the only further platform call is the deletion of the stored token, so the
  response body is neither read nor parsed; and the stored token is gone (\<open>getToken\<close> then
  gives \<open>null\<close>) whenever the storage carries out that deletion.
\<close>

theorem request_401_session_expired:
  assumes "request rt path meth body w = (r, w')"
      and "fetched (new_events w w') = [req]"
      and "fetch rt req = Inr res"
      and "res_status res = 401"
  shows "r = Inl (Error SESSION_EXPIRED) \<and>
         new_events w w' = [StoreGet TOKEN_KEY, Fetch req, StoreDelete TOKEN_KEY] \<and>
         ReadText \<notin> set (new_events w w') \<and> parsed (new_events w w') = [] \<and>
         (\<not> fault_at 1 (faults w) \<longrightarrow> items w' TOKEN_KEY = None \<and> fst (getToken w') = Inr None)"
  using assms(1,3,4) unfolding request_sent [OF assms(1,2)]
  by (auto simp add: request_eq Let_def new_events_def getToken_eq)

theorem request_401_session_expired_witness:
  "fst (request (demo_runtime (answering 401 ''Unauthorized'') []) ''/jobs'' GET None (logged_in ''abc''))
     = Inl (Error ''Session expired. Please log in again.'') \<and>
   log (snd (request (demo_runtime (answering 401 ''Unauthorized'') []) ''/jobs'' GET None (logged_in ''abc'')))
     = [StoreGet TOKEN_KEY, Fetch (sent_request (demo_runtime (answering 401 ''Unauthorized'') []) ''/jobs'' GET None
                              (logged_in ''abc'')), StoreDelete TOKEN_KEY] \<and>
   fst (getToken (snd (request (demo_runtime (answering 401 ''Unauthorized'') []) ''/jobs'' GET None
                         (logged_in ''abc'')))) = Inr None"
proof -
  let ?R = "demo_runtime (answering 401 ''Unauthorized'') []"
  let ?w = "logged_in ''abc''"
  let ?res = "\<lparr>res_status = 401, res_text = Inr ''Unauthorized''\<rparr>"
  have h1: "request ?R ''/jobs'' GET None ?w =
              (fst (request ?R ''/jobs'' GET None ?w), snd (request ?R ''/jobs'' GET None ?w))"
    by simp
  have h2: "fetched (new_events ?w (snd (request ?R ''/jobs'' GET None ?w))) = [sent_request ?R ''/jobs'' GET None ?w]"
    by (rule request_fetched)
  have h3: "fetch ?R (sent_request ?R ''/jobs'' GET None ?w) = Inr ?res"
    by (simp add: demo_simps)
  have h4: "res_status ?res = 401"
    by simp
  have h5: "\<not> fault_at 1 (faults ?w)"
    by (simp add: logged_in_def)
  have h6: "new_events ?w (snd (request ?R ''/jobs'' GET None ?w))
              = log (snd (request ?R ''/jobs'' GET None ?w))"
    by (simp add: new_events_def logged_in_def)
  show ?thesis
    using request_401_session_expired [OF h1 h2 h3 h4] h5 h6
    by (simp add: SESSION_EXPIRED_def)
qed

text \<open>
  Claim C3. Every call hands exactly one request to the transport. It always carries
  \<open>Content-Type: application/json\<close>. When the token store gives a non-empty token \<open>t\<close>,
  the headers are that and \<open>Authorization: Bearer t\<close>; when it gives none (or an empty
  one), there is no \<open>Authorization\<close> key at all. The token store gives the stored token
  whenever the storage holds one and the read does not fail.
\<close>

theorem request_headers:
  assumes "request rt path meth body w = (r, w')"
  shows "\<exists>req. fetched (new_events w w') = [req] \<and>
           map_of (req_headers req) ''Content-Type'' = Some ''application/json'' \<and>
           (\<forall>t. fst (getToken w) = Inr (Some t) \<and> t \<noteq> [] \<longrightarrow>
                req_headers req = [(''Content-Type'', ''application/json''),
                                   (''Authorization'', ''Bearer '' @ t)]) \<and>
           (fst (getToken w) = Inr None \<or> fst (getToken w) = Inr (Some []) \<longrightarrow>
                req_headers req = [(''Content-Type'', ''application/json'')] \<and>
                ''Authorization'' \<notin> fst ` set (req_headers req)) \<and>
           (\<forall>t. items w TOKEN_KEY = Some t \<and> t \<noteq> [] \<and> \<not> fault_at 0 (faults w) \<longrightarrow>
                map_of (req_headers req) ''Authorization'' = Some (''Bearer '' @ t))"
proof -
  have "fetched (new_events w w') = [sent_request rt path meth body w]"
    using assms request_fetched [of w rt path meth body] by simp
  then show ?thesis
    by (auto simp add: sent_request_def build_headers_def getToken_eq)
qed

theorem request_headers_witness:
  "fst (getToken (logged_in ''abc'')) = Inr (Some ''abc'') \<and>
   map req_headers (fetched (log (snd
      (request (demo_runtime (answering 200 (demo_stringify JOBS)) [JOBS]) ''/jobs'' GET None
         (logged_in ''abc'')))))
     = [[(''Content-Type'', ''application/json''), (''Authorization'', ''Bearer abc'')]] \<and>
   fst (getToken logged_out) = Inr None \<and>
   map req_headers (fetched (log (snd
      (request (demo_runtime (answering 200 (demo_stringify JOBS)) [JOBS]) ''/jobs'' GET None
         logged_out))))
     = [[(''Content-Type'', ''application/json'')]]"
proof -
  let ?R = "demo_runtime (answering 200 (demo_stringify JOBS)) [JOBS]"
  have a: "fst (getToken (logged_in ''abc'')) = Inr (Some ''abc'')"
    by (simp add: getToken_eq logged_in_def)
  have b: "fst (getToken logged_out) = Inr None"
    by (simp add: getToken_eq logged_out_def)
  have c: "new_events logged_out w' = log w'" for w'
    by (simp add: new_events_def logged_out_def)
  show ?thesis
    using request_headers [where rt = ?R and path = "''/jobs''" and meth = GET and body = None
                             and w = "logged_in ''abc''", OF demo_pair]
          request_headers [where rt = ?R and path = "''/jobs''" and meth = GET and body = None
                             and w = logged_out, OF demo_pair]
          a b
    by (auto simp add: demo_log c)
qed

text \<open>
  Claim C7. The request a call hands to the transport has no body when \<open>body\<close> is
  omitted, and exactly \<open>JSON.stringify(body)\<close> when it is given.
\<close>

theorem request_body:
  assumes "request rt path meth body w = (r, w')"
  shows "\<exists>req. fetched (new_events w w') = [req] \<and>
           req_url req = BASE_URL rt @ path \<and> req_method req = meth \<and>
           (body = None \<longrightarrow> req_body req = None) \<and>
           (\<forall>b. body = Some b \<longrightarrow> req_body req = Some (JSON_stringify rt b))"
proof -
  have "fetched (new_events w w') = [sent_request rt path meth body w]"
    using assms request_fetched [of w rt path meth body] by simp
  then show ?thesis
    by (simp add: sent_request_def)
qed

theorem request_body_witness:
  "map req_body (fetched (log (snd
      (request (demo_runtime (answering 200 (demo_stringify JOBS)) [JOBS]) ''/jobs'' GET None
         (logged_in ''abc''))))) = [None] \<and>
   map req_body (fetched (log (snd
      (request (demo_runtime (answering 200 (demo_stringify NEW_JOB)) [NEW_JOB]) ''/jobs'' POST
         (Some NEW_JOB) (logged_in ''abc''))))) = [Some (demo_stringify NEW_JOB)]"
  using request_body [where rt = "demo_runtime (answering 200 (demo_stringify JOBS)) [JOBS]"
                        and path = "''/jobs''" and meth = GET and body = None
                        and w = "logged_in ''abc''", OF demo_pair]
        request_body [where rt = "demo_runtime (answering 200 (demo_stringify NEW_JOB)) [NEW_JOB]"
                        and path = "''/jobs''" and meth = POST and body = "Some NEW_JOB"
                        and w = "logged_in ''abc''", OF demo_pair]
  by (auto simp add: demo_log demo_runtime_def)

text \<open>
  Claim C8, as stated: for every response with a status other than 401, \<open>request\<close>
  attempts a JSON parse of the body text and keeps the raw text when the parse fails. It
  does not for an empty body: on a 200 response with no content (as a deletion gives),
  where \<open>JSON.parse\<close> of the text would fail, nothing is handed to \<open>JSON.parse\<close> and
  the value is \<open>null\<close>, not the (empty) raw text.
\<close>

theorem request_body_parsing_counterexample:
  "JSON_parse (demo_runtime (answering 200 []) []) [] = None \<and>
   request (demo_runtime (answering 200 []) []) ''/jobs/1'' DELETE None (logged_in ''abc'') =
     (Inr JNull,
      \<lparr>items = [TOKEN_KEY \<mapsto> ''abc''], faults = [],
       log = [StoreGet TOKEN_KEY, Fetch (sent_request (demo_runtime (answering 200 []) []) ''/jobs/1'' DELETE None
                            (logged_in ''abc'')), ReadText]\<rparr>)"
  by (simp add: request_eq Let_def demo_simps)

text \<open>
  Claim C8, amended. When the response's status is not 401 (and its body can be read),
  \<open>request\<close> reads the body as text. An empty text becomes \<open>null\<close> without any parse.
  A non-empty text is handed to \<open>JSON.parse\<close>; when that fails, the raw text itself is
  the parsed value, and the call never fails with the parser's error: on a 2xx status it
  returns the text, otherwise the text is the error's message.
\<close>

theorem request_body_parsing:
  assumes "request rt path meth body w = (r, w')"
      and "fetched (new_events w w') = [req]"
      and "fetch rt req = Inr res"
      and "res_status res \<noteq> 401"
      and "res_text res = Inr raw"
  shows "new_events w w' = [StoreGet TOKEN_KEY, Fetch req, ReadText] @
                           (if raw = [] then [] else [JsonParse raw]) \<and>
         r \<noteq> Inl SyntaxError \<and>
         (raw = [] \<and> res_ok res \<longrightarrow> r = Inr JNull) \<and>
         (\<forall>v. raw \<noteq> [] \<and> JSON_parse rt raw = Some v \<and> res_ok res \<longrightarrow> r = Inr v) \<and>
         (raw \<noteq> [] \<and> JSON_parse rt raw = None \<and> res_ok res \<longrightarrow> r = Inr (JStr raw)) \<and>
         (raw \<noteq> [] \<and> JSON_parse rt raw = None \<and> \<not> res_ok res \<longrightarrow> r = Inl (Error raw))"
  using assms(1,3-5) unfolding request_sent [OF assms(1,2)]
  by (cases "res_ok res")
     (auto simp add: request_eq Let_def new_events_def Error_of_def error_msg_def js_or_def
        js_and_def)

theorem request_body_parsing_witness:
  "request (demo_runtime (answering 200 []) []) ''/jobs/1'' DELETE None (logged_in ''abc'') =
     (Inr JNull,
      \<lparr>items = [TOKEN_KEY \<mapsto> ''abc''], faults = [],
       log = [StoreGet TOKEN_KEY, Fetch (sent_request (demo_runtime (answering 200 []) []) ''/jobs/1'' DELETE None
                            (logged_in ''abc'')),
              ReadText]\<rparr>) \<and>
   fst (request (demo_runtime (answering 200 (demo_stringify JOBS)) [JOBS]) ''/jobs'' GET None
          (logged_in ''abc'')) = Inr JOBS \<and>
   fst (request (demo_runtime (answering 200 ''OK'') []) ''/jobs'' GET None (logged_in ''abc''))
     = Inr (JStr ''OK'') \<and>
   parsed (log (snd (request (demo_runtime (answering 200 ''OK'') []) ''/jobs'' GET None
                        (logged_in ''abc'')))) = [''OK''] \<and>
   fst (request (demo_runtime (answering 502 ''Bad Gateway'') []) ''/jobs'' GET None
          (logged_in ''abc'')) = Inl (Error ''Bad Gateway'')"
proof -
  let ?w = "logged_in ''abc''"
  have ok: "res_ok \<lparr>res_status = 200, res_text = Inr t\<rparr>"
           "\<not> res_ok \<lparr>res_status = 502, res_text = Inr t\<rparr>" for t
    by (simp_all add: res_ok_def)
  have J: "demo_stringify JOBS \<noteq> []"
          "JSON_parse (demo_runtime (answering 200 (demo_stringify JOBS)) [JOBS]) (demo_stringify JOBS)
             = Some JOBS"
    by (simp_all add: demo_simps JOBS_def)
  have N: "JSON_parse (demo_runtime (answering st raw) []) t = None" for st raw t
    by (simp add: demo_simps)
  have 1: "request (demo_runtime (answering 200 []) []) ''/jobs/1'' DELETE None ?w =
     (Inr JNull,
      \<lparr>items = [TOKEN_KEY \<mapsto> ''abc''], faults = [],
       log = [StoreGet TOKEN_KEY, Fetch (sent_request (demo_runtime (answering 200 []) []) ''/jobs/1'' DELETE None
                            (logged_in ''abc'')),
              ReadText]\<rparr>)"
    using request_body_parsing
            [where rt = "demo_runtime (answering 200 []) []" and path = "''/jobs/1''"
               and meth = DELETE and body = None and w = ?w and raw = "[]",
             OF demo_pair request_fetched demo_fetch] ok(1)
    by (simp add: request_eq Let_def demo_simps)
  have 2: "fst (request (demo_runtime (answering 200 (demo_stringify JOBS)) [JOBS]) ''/jobs'' GET None
          ?w) = Inr JOBS"
    using request_body_parsing
            [where rt = "demo_runtime (answering 200 (demo_stringify JOBS)) [JOBS]"
               and path = "''/jobs''" and meth = GET and body = None and w = ?w
               and raw = "demo_stringify JOBS",
             OF demo_pair request_fetched demo_fetch] ok(1) J
    by simp
  have 3: "fst (request (demo_runtime (answering 200 ''OK'') []) ''/jobs'' GET None ?w)
             = Inr (JStr ''OK'') \<and>
           parsed (log (snd (request (demo_runtime (answering 200 ''OK'') []) ''/jobs'' GET None
                        ?w))) = [''OK'']"
    using request_body_parsing
            [where rt = "demo_runtime (answering 200 ''OK'') []" and path = "''/jobs''"
               and meth = GET and body = None and w = ?w and raw = "''OK''",
             OF demo_pair request_fetched demo_fetch] ok(1) N
    by (simp add: demo_log)
  have 4: "fst (request (demo_runtime (answering 502 ''Bad Gateway'') []) ''/jobs'' GET None
          ?w) = Inl (Error ''Bad Gateway'')"
    using request_body_parsing
            [where rt = "demo_runtime (answering 502 ''Bad Gateway'') []" and path = "''/jobs''"
               and meth = GET and body = None and w = ?w and raw = "''Bad Gateway''",
             OF demo_pair request_fetched demo_fetch] ok(2) N
    by simp
  from 1 2 3 4 show ?thesis by simp
qed

text \<open>The body texts used below, as the server sends them.\<close>

lemma demo_texts:
  \<open>demo_stringify EMPTY_DETAIL = ''{"detail":"","message":"Y"}''\<close>
  \<open>demo_stringify DETAIL_X = ''{"detail":"X"}''\<close>
  \<open>demo_stringify MESSAGE_Y = ''{"message":"Y"}''\<close>
  \<open>demo_stringify JOBS = ''[{"id":1,"title":"Install"}]''\<close>
  by (simp_all add: EMPTY_DETAIL_def DETAIL_X_def MESSAGE_Y_def JOBS_def quote_json_def DQ_def
        String_int_1)

text \<open>
  Claim C2, as stated: the message is the body's \<open>detail\<close> field if present, else its
  \<open>message\<close> field. It is not when \<open>detail\<close> is present but falsy: for a 400 response
  with the body \<open>{"detail":"","message":"Y"}\<close> the message is \<open>Y\<close>, not the (empty)
  \<open>detail\<close>.
\<close>

theorem request_error_message_counterexample:
  "get_prop EMPTY_DETAIL ''detail'' = Some (JStr []) \<and>
   JSON_parse (demo_runtime (answering 400 (demo_stringify EMPTY_DETAIL)) [EMPTY_DETAIL])
       (demo_stringify EMPTY_DETAIL) = Some EMPTY_DETAIL \<and>
   fst (request (demo_runtime (answering 400 (demo_stringify EMPTY_DETAIL)) [EMPTY_DETAIL])
          ''/jobs'' GET None (logged_in ''abc'')) = Inl (Error ''Y'')"
  by (simp add: request_eq Let_def demo_simps EMPTY_DETAIL_def quote_json_def DQ_def
        Error_of_def error_msg_def js_or_def js_and_def)

text \<open>
  Claim C2, amended. For a response that is neither 2xx nor 401, with \<open>data\<close> the
  parsed body, the error message is: the \<open>detail\<close> field of \<open>data\<close> when it is truthy, as a
  string; else the \<open>message\<close> field when it is truthy, as a string; else \<open>data\<close> itself
  when it is a non-empty string; else \<open>Request failed (<status>)\<close>.
\<close>

theorem request_error_message:
  assumes "request rt path meth body w = (r, w')"
      and "fetched (new_events w w') = [req]"
      and "fetch rt req = Inr res"
      and "res_status res \<noteq> 401"
      and "\<not> res_ok res"
      and "res_text res = Inr raw"
      and "data = (if raw = [] then JNull
                   else case JSON_parse rt raw of None \<Rightarrow> JStr raw | Some v \<Rightarrow> v)"
  shows "(\<forall>d. get_prop data ''detail'' = Some d \<and> truthy rt (Some d) \<longrightarrow>
            r = Inl (Error (ToString rt d))) \<and>
         (\<forall>m. \<not> truthy rt (get_prop data ''detail'') \<and>
              get_prop data ''message'' = Some m \<and> truthy rt (Some m) \<longrightarrow>
            r = Inl (Error (ToString rt m))) \<and>
         (\<forall>s. \<not> truthy rt (get_prop data ''detail'') \<and> \<not> truthy rt (get_prop data ''message'') \<and>
              data = JStr s \<and> s \<noteq> [] \<longrightarrow>
            r = Inl (Error s)) \<and>
         (\<not> truthy rt (get_prop data ''detail'') \<and> \<not> truthy rt (get_prop data ''message'') \<and>
          (\<forall>s. data = JStr s \<longrightarrow> s = []) \<longrightarrow>
            r = Inl (Error (''Request failed ('' @ show_nat (res_status res) @ '')'')))"
proof -
  have "r = Inl (Error_of rt (error_msg rt data (res_status res)))"
    unfolding assms(7) by (rule request_not_ok [OF assms(1-6)])
  then show ?thesis
    using error_msg_priority [of data rt "res_status res"] by simp
qed

theorem request_error_message_witness:
  "fst (request (demo_runtime (answering 400 (demo_stringify DETAIL_X)) [DETAIL_X])
          ''/jobs'' GET None (logged_in ''abc'')) = Inl (Error ''X'') \<and>
   fst (request (demo_runtime (answering 400 (demo_stringify MESSAGE_Y)) [MESSAGE_Y])
          ''/jobs'' GET None (logged_in ''abc'')) = Inl (Error ''Y'') \<and>
   fst (request (demo_runtime (answering 400 ''Z'') [])
          ''/jobs'' GET None (logged_in ''abc'')) = Inl (Error ''Z'') \<and>
   fst (request (demo_runtime (answering 500 []) [])
          ''/jobs'' GET None (logged_in ''abc'')) = Inl (Error ''Request failed (500)'')"
proof -
  let ?w = "logged_in ''abc''"
  have ok: "\<not> res_ok \<lparr>res_status = 400, res_text = Inr t\<rparr>"
           "\<not> res_ok \<lparr>res_status = 500, res_text = Inr t\<rparr>" for t
    by (simp_all add: res_ok_def)
  have X: "(if demo_stringify DETAIL_X = [] then JNull
            else case JSON_parse (demo_runtime (answering 400 (demo_stringify DETAIL_X)) [DETAIL_X])
                        (demo_stringify DETAIL_X) of None \<Rightarrow> JStr (demo_stringify DETAIL_X) | Some v \<Rightarrow> v)
           = DETAIL_X"
    by (simp add: demo_simps DETAIL_X_def quote_json_def)
  have Y: "(if demo_stringify MESSAGE_Y = [] then JNull
            else case JSON_parse (demo_runtime (answering 400 (demo_stringify MESSAGE_Y)) [MESSAGE_Y])
                        (demo_stringify MESSAGE_Y) of None \<Rightarrow> JStr (demo_stringify MESSAGE_Y) | Some v \<Rightarrow> v)
           = MESSAGE_Y"
    by (simp add: demo_simps MESSAGE_Y_def quote_json_def)
  have Z: "(if ''Z'' = [] then JNull
            else case JSON_parse (demo_runtime (answering 400 ''Z'') []) ''Z'' of
                   None \<Rightarrow> JStr ''Z'' | Some v \<Rightarrow> v) = (JStr ''Z'' :: int json)"
    by (simp add: demo_simps)
  have E: "(if ([]::string) = [] then JNull
            else case JSON_parse (demo_runtime (answering 500 []) []) [] of
                   None \<Rightarrow> JStr [] | Some v \<Rightarrow> v) = (JNull :: int json)"
    by simp
  note T = request_error_message [OF demo_pair request_fetched demo_fetch]
  have "fst (request (demo_runtime (answering 400 (demo_stringify DETAIL_X)) [DETAIL_X])
          ''/jobs'' GET None ?w) = Inl (Error ''X'')"
    using T [OF _ ok(1) _ X [symmetric]] by (simp add: DETAIL_X_def)
  moreover have "fst (request (demo_runtime (answering 400 (demo_stringify MESSAGE_Y)) [MESSAGE_Y])
          ''/jobs'' GET None ?w) = Inl (Error ''Y'')"
    using T [OF _ ok(1) _ Y [symmetric]] by (simp add: MESSAGE_Y_def)
  moreover have "fst (request (demo_runtime (answering 400 ''Z'') [])
          ''/jobs'' GET None ?w) = Inl (Error ''Z'')"
    using T [OF _ ok(1) _ Z [symmetric]] by simp
  moreover have "fst (request (demo_runtime (answering 500 []) [])
          ''/jobs'' GET None ?w) = Inl (Error ''Request failed (500)'')"
    using T [OF _ ok(2) _ E [symmetric]] by (simp add: show_nat_500)
  ultimately show ?thesis by simp
qed

section \<open>\<open>csvEscape\<close>\<close>

lemma read_unquoted:
  "\<forall>c \<in> set s. \<not> csv_special c \<Longrightarrow>
     csv_read Unquoted acc s = [acc @ s] \<and>
     csv_read Unquoted acc (s @ CHR '','' # r) = (acc @ s) # csv_read FieldStart [] r"
  by (induction s arbitrary: acc) (simp_all add: csv_special_def)

lemma read_plain_field:
  "\<forall>c \<in> set s. \<not> csv_special c \<Longrightarrow>
     csv_read FieldStart [] s = [s] \<and>
     csv_read FieldStart [] (s @ CHR '','' # r) = s # csv_read FieldStart [] r"
proof (cases s)
  case Nil
  then show ?thesis by (simp add: DQ_def)
next
  case (Cons c cs)
  assume "\<forall>c \<in> set s. \<not> csv_special c"
  with Cons have c: "c \<noteq> DQ" "c \<noteq> CHR '',''" and cs: "\<forall>c \<in> set cs. \<not> csv_special c"
    by (auto simp add: csv_special_def)
  show ?thesis
    using read_unquoted [OF cs, of "[c]" r] c Cons by simp
qed

lemma read_quoted:
  "csv_read Quoted acc (double_quotes s @ [DQ]) = [acc @ s] \<and>
   csv_read Quoted acc (double_quotes s @ DQ # CHR '','' # r) = (acc @ s) # csv_read FieldStart [] r"
  by (induction s arbitrary: acc) (simp_all add: double_quotes_def DQ_def)

lemma read_quoted_field:
  "csv_read FieldStart [] ([DQ] @ double_quotes s @ [DQ]) = [s] \<and>
   csv_read FieldStart [] (([DQ] @ double_quotes s @ [DQ]) @ CHR '','' # r)
     = s # csv_read FieldStart [] r"
  using read_quoted [of "[]" s r] by simp

lemma read_cell:
  "csv_read FieldStart [] (csvEscape rt v) = [cell_text rt v] \<and>
   csv_read FieldStart [] (csvEscape rt v @ CHR '','' # r) = cell_text rt v # csv_read FieldStart [] r"
proof (cases "\<exists>c \<in> set (cell_text rt v). csv_special c")
  case True
  then show ?thesis
    using read_quoted_field [of "cell_text rt v" r] by (simp add: csvEscape_def Let_def)
next
  case False
  then show ?thesis
    using read_plain_field [of "cell_text rt v" r] by (simp add: csvEscape_def Let_def)
qed

lemma read_row:
  "cells \<noteq> [] \<Longrightarrow>
     csv_read FieldStart [] (join '','' (map (csvEscape rt) cells)) = map (cell_text rt) cells"
proof (induction cells rule: induct_list012)
  case 1
  then show ?case by simp
next
  case (2 x)
  then show ?case by (simp add: read_cell)
next
  case (3 x y zs)
  then show ?case by (simp add: read_cell)
qed

text \<open>
  Claim C10. \<open>csvEscape\<close> maps \<open>null\<close> and \<open>undefined\<close> to the empty string; any other
  value goes to its string, unchanged when that contains no double quote, comma, carriage
  return or newline, and otherwise wrapped in double quotes with every double quote
  inside doubled. Reading back a row of escaped cells joined by commas gives each cell's
  string again.
\<close>

theorem csvEscape_spec:
  "(v = None \<or> v = Some JNull \<longrightarrow> csvEscape rt v = []) \<and>
   (\<forall>x. v = Some x \<and> x \<noteq> JNull \<and> (\<forall>c \<in> set (ToString rt x). \<not> csv_special c) \<longrightarrow>
        csvEscape rt v = ToString rt x) \<and>
   (\<forall>x. v = Some x \<and> x \<noteq> JNull \<and> (\<exists>c \<in> set (ToString rt x). csv_special c) \<longrightarrow>
        csvEscape rt v =
          [DQ] @ concat (map (\<lambda>c. if c = DQ then [DQ, DQ] else [c]) (ToString rt x)) @ [DQ]) \<and>
   (cells \<noteq> [] \<longrightarrow>
        csv_read_row (join '','' (map (csvEscape rt) cells)) = map (cell_text rt) cells)"
proof -
  have "cell_text rt (Some x) = ToString rt x" if "x \<noteq> JNull" for x
    using that by (cases x) (simp_all add: cell_text_def)
  then show ?thesis
    by (auto simp add: csvEscape_def Let_def cell_text_def double_quotes_def read_row csv_read_row_def)
qed

theorem csvEscape_spec_witness:
  "csvEscape (demo_runtime (answering 200 []) []) None = [] \<and>
   csvEscape (demo_runtime (answering 200 []) []) (Some JNull) = [] \<and>
   csvEscape (demo_runtime (answering 200 []) []) (Some (JNum 7)) = ''7'' \<and>
   csvEscape (demo_runtime (answering 200 []) []) (Some (JStr ''Install, paint''))
     = [DQ] @ ''Install, paint'' @ [DQ] \<and>
   csvEscape (demo_runtime (answering 200 []) []) (Some (JStr (''say '' @ [DQ] @ ''hi'' @ [DQ])))
     = [DQ] @ ''say '' @ [DQ, DQ] @ ''hi'' @ [DQ, DQ] @ [DQ] \<and>
   CELLS \<noteq> [] \<and>
   csv_read_row (join '','' (map (csvEscape (demo_runtime (answering 200 []) [])) CELLS))
     = [''7'', ''Install, paint'', [], [], ''say '' @ [DQ] @ ''hi'' @ [DQ]]"
proof -
  let ?R = "demo_runtime (answering 200 []) []"
  have m: "Number_toString ?R 7 = ''7''"
    by (simp add: demo_runtime_def String_int_7)
  then have n: "ToString ?R (JNum 7) = ''7''"
    by simp
  have a: "\<forall>c \<in> set (ToString ?R (JNum 7)). \<not> csv_special c"
    unfolding n by (simp add: csv_special_def DQ_def)
  have b: "\<exists>c \<in> set (ToString ?R (JStr ''Install, paint'')). csv_special c"
    by (simp add: csv_special_def)
  have c: "\<exists>c \<in> set (ToString ?R (JStr (''say '' @ [DQ] @ ''hi'' @ [DQ]))). csv_special c"
    by (simp add: csv_special_def)
  have d: "CELLS \<noteq> []"
    by (simp add: CELLS_def)
  have e: "map (cell_text ?R) CELLS = [''7'', ''Install, paint'', [], [], ''say '' @ [DQ] @ ''hi'' @ [DQ]]"
    by (simp add: CELLS_def cell_text_def m)
  show ?thesis
    using csvEscape_spec [of None ?R CELLS]
          csvEscape_spec [of "Some JNull" ?R CELLS]
          csvEscape_spec [of "Some (JNum 7)" ?R CELLS]
          csvEscape_spec [of "Some (JStr ''Install, paint'')" ?R CELLS]
          csvEscape_spec [of "Some (JStr (''say '' @ [DQ] @ ''hi'' @ [DQ]))" ?R CELLS]
          a b c d e m
    by (simp add: DQ_def csv_special_def)
qed

end
